theory Spec2Isabelle
  imports Main
begin

section \<open>JavaScript values, errors and strings\<close>

text \<open>
  The program is the browser front end \<^verbatim>\<open>src/wakili_frontend/index.js\<close>. A thrown
  exception is a value of type \<open>error\<close>; a computation that may throw returns
  \<open>error + 'a\<close>, with \<open>Inl\<close> for the exception. Strings are lists of code units.
\<close>

datatype error =
    TypeError string
  | RangeError string
  | Error string
  | NotModelled string

fun message :: "error \<Rightarrow> string" where
  "message (TypeError m) = m"
| "message (RangeError m) = m"
| "message (Error m) = m"
| "message (NotModelled m) = m"

text \<open>
  The values that reach the arithmetic of the renderers: \<^verbatim>\<open>undefined\<close> (an array index
  out of range), a string (a part of a split document id) and a BigInt (a Candid
  \<^verbatim>\<open>nat64\<close> as the agent library decodes it).
\<close>

datatype jsval = JUndefined | JString string | JBigInt int

text \<open>BigInt division truncates toward zero.\<close>

definition tdiv :: "int \<Rightarrow> int \<Rightarrow> int" where
  "tdiv a b = sgn a * sgn b * (\<bar>a\<bar> div \<bar>b\<bar>)"

text \<open>
  \<^verbatim>\<open>v / bn\<close> with a BigInt literal \<^verbatim>\<open>bn\<close> on the right. Both operands go through
  ToNumeric: a BigInt stays a BigInt, a string and \<^verbatim>\<open>undefined\<close> become a Number, and
  the operator throws TypeError when the two numeric types differ.
\<close>

fun js_div_bigint :: "jsval \<Rightarrow> int \<Rightarrow> error + int" where
  "js_div_bigint (JBigInt a) b =
     (if b = 0 then Inl (RangeError ''Division by zero'') else Inr (tdiv a b))"
| "js_div_bigint (JString s) b =
     Inl (TypeError ''Cannot mix BigInt and other types, use explicit conversions'')"
| "js_div_bigint JUndefined b =
     Inl (TypeError ''Cannot mix BigInt and other types, use explicit conversions'')"

text \<open>Decimal printing of an integer, as a template literal interpolates it.\<close>

fun show_nat :: "nat \<Rightarrow> string" where
  "show_nat n =
     (if n < 10 then [char_of (48 + n)]
      else show_nat (n div 10) @ [char_of (48 + n mod 10)])"

declare show_nat.simps [simp del]

definition show_int :: "int \<Rightarrow> string" where
  "show_int i = (if i < 0 then CHR ''-'' # show_nat (nat (- i)) else show_nat (nat i))"

fun interpolate :: "jsval \<Rightarrow> string" where
  "interpolate JUndefined = ''undefined''"
| "interpolate (JString s) = s"
| "interpolate (JBigInt n) = show_int n"

text \<open>\<^verbatim>\<open>s.split(d)\<close> for a one-character separator, and \<^verbatim>\<open>xs[i]\<close> on the array.\<close>

fun split_on :: "char \<Rightarrow> string \<Rightarrow> string list" where
  "split_on d [] = [[]]"
| "split_on d (c # cs) =
     (if c = d then [] # split_on d cs
      else (case split_on d cs of
              [] \<Rightarrow> [[c]]
            | w # ws \<Rightarrow> (c # w) # ws))"

fun index :: "string list \<Rightarrow> nat \<Rightarrow> jsval" where
  "index [] i = JUndefined"
| "index (x # xs) 0 = JString x"
| "index (x # xs) (Suc i) = index xs i"

text \<open>
  \<^verbatim>\<open>s.trim()\<close>: white space and line terminators are removed at both ends. Of the
  characters that \<^verbatim>\<open>trim\<close> removes, these are the ones below 256: tab, line feed,
  vertical tab, form feed, carriage return, space and the no-break space.
\<close>

definition is_space :: "char \<Rightarrow> bool" where
  "is_space c =
     (c \<in> set [CHR 0x09, CHR 0x0A, CHR 0x0B, CHR 0x0C, CHR 0x0D, CHR '' '', CHR 0xA0])"

definition trim :: "string \<Rightarrow> string" where
  "trim s = rev (dropWhile is_space (rev (dropWhile is_space s)))"

text \<open>
  \<^verbatim>\<open>s.replace(/pat/g, rep)\<close> for a literal, non-empty pattern: every occurrence, left
  to right, without rescanning the replacement. The counter \<open>k\<close> skips the rest of an
  occurrence that has just been replaced.
\<close>

fun is_prefix :: "string \<Rightarrow> string \<Rightarrow> bool" where
  "is_prefix [] ys = True"
| "is_prefix (x # xs) [] = False"
| "is_prefix (x # xs) (y # ys) = (x = y \<and> is_prefix xs ys)"

fun replace_from :: "nat \<Rightarrow> string \<Rightarrow> string \<Rightarrow> string \<Rightarrow> string" where
  "replace_from k pat rep [] = []"
| "replace_from (Suc k) pat rep (c # cs) = replace_from k pat rep cs"
| "replace_from 0 pat rep (c # cs) =
     (if pat \<noteq> [] \<and> is_prefix pat (c # cs)
      then rep @ replace_from (length pat - 1) pat rep cs
      else c # replace_from 0 pat rep cs)"

definition replace_all :: "string \<Rightarrow> string \<Rightarrow> string \<Rightarrow> string" where
  "replace_all pat rep s = replace_from 0 pat rep s"

text \<open>
  The text content of an element whose markup is \<open>s\<close>: the markup without its tags.
  The flag says whether the scan is inside a tag. Character references and comments
  are not interpreted; the labels of this program have none.
\<close>

fun strip_tags :: "bool \<Rightarrow> string \<Rightarrow> string" where
  "strip_tags in_tag [] = []"
| "strip_tags in_tag (c # cs) =
     (if in_tag then (if c = CHR ''>'' then strip_tags False cs else strip_tags True cs)
      else if c = CHR ''<'' then strip_tags True cs
      else c # strip_tags False cs)"

section \<open>Data exchanged with the backend\<close>

record request =
  prompt :: string
  document_type :: "string option"
  request_context :: "string option"
  is_confidential :: bool

record advice_response =
  status :: string
  response :: string

text \<open>The \<^verbatim>\<open>document\<close> member of a document response may be absent (\<open>None\<close>).\<close>

record document_response =
  doc_status :: string
  document :: "string option"

text \<open>
  A Candid \<^verbatim>\<open>opt text\<close> arrives as an array with no element or one element; the
  source reads it that way (\<^verbatim>\<open>profile.name.length\<close>, \<^verbatim>\<open>profile.name[0]\<close>).
  \<^verbatim>\<open>last_active\<close> is a BigInt of nanoseconds.
\<close>

record profile =
  name :: "string list"
  document_count :: int
  last_active :: int

text \<open>
  A method call \<^verbatim>\<open>expr.m(args)\<close> where \<^verbatim>\<open>expr\<close> is an array. The member is looked up
  on the array and on \<^verbatim>\<open>Array.prototype\<close>; a name found in neither is \<^verbatim>\<open>undefined\<close>,
  and calling it throws TypeError, whose message names the callee as the source writes
  it. The methods that do exist are not given a meaning here: the program calls none of
  them.
\<close>

definition array_prototype_names :: "string list" where
  "array_prototype_names =
     [''at'', ''concat'', ''copyWithin'', ''entries'', ''every'', ''fill'', ''filter'',
      ''find'', ''findIndex'', ''findLast'', ''findLastIndex'', ''flat'', ''flatMap'',
      ''forEach'', ''includes'', ''indexOf'', ''join'', ''keys'', ''lastIndexOf'', ''map'',
      ''pop'', ''push'', ''reduce'', ''reduceRight'', ''reverse'', ''shift'', ''slice'',
      ''some'', ''sort'', ''splice'', ''toLocaleString'', ''toReversed'', ''toSorted'',
      ''toSpliced'', ''toString'', ''unshift'', ''values'', ''with'',
      ''hasOwnProperty'', ''isPrototypeOf'', ''propertyIsEnumerable'', ''valueOf'']"

definition array_call ::
  "string \<Rightarrow> string list \<Rightarrow> string \<Rightarrow> string list \<Rightarrow> error + string" where
  "array_call expr arr m args =
     (if m \<in> set array_prototype_names then Inl (NotModelled m)
      else Inl (TypeError (expr @ ''.'' @ m @ '' is not a function'')))"

datatype proxy = Proxy string string

datatype call =
    CreateAgent string
  | AuthClientCreate
  | IsAuthenticated
  | Login "string option"
  | FetchRootKey
  | GenerateLegalAdvice request
  | GenerateLegalDocument request
  | GetUserProfile
  | GetUserDocuments
  | GetDocument string
  | UpdateUserName string

section \<open>The page and the module state\<close>

text \<open>
  A trigger button, as \<^verbatim>\<open>toggleButton\<close> sees it: the \<^verbatim>\<open>disabled\<close> flag and the markup
  \<^verbatim>\<open>innerHTML\<close>; \<^verbatim>\<open>textContent\<close> is read off the markup.
\<close>

record button =
  disabled :: bool
  innerHTML :: string

definition textContent :: "button \<Rightarrow> string" where
  "textContent b = strip_tags False (innerHTML b)"

datatype button_id = GetAdviceBtn | GenerateDocBtn | SaveDocBtn | UpdateNameBtn

text \<open>
  One entry of the document list. The markup template of the source is kept as its
  four interpolated values.
\<close>

record doc_element =
  doc_label :: string
  doc_date :: string
  doc_preview :: string
  doc_id :: string

text \<open>
  The children of the document list: the markup the page starts with, the "no documents"
  placeholder, the "error loading documents" message, or an entry.
\<close>

datatype documents_node =
    StaticMarkup
  | NoDocuments
  | LoadError
  | Item doc_element

datatype provider = Plug | InternetIdentity

text \<open>
  The module variables (\<^verbatim>\<open>actor\<close>, \<^verbatim>\<open>internetIdentityActor\<close>, \<^verbatim>\<open>currentDocument\<close>,
  \<^verbatim>\<open>currentPrincipal\<close>; \<open>None\<close> is \<^verbatim>\<open>undefined\<close> or \<^verbatim>\<open>null\<close>), the parts of the page
  the script reads and writes, and what leaves the page: the notifications shown, the
  diagnostic log, the files offered for download and the calls made to the outside, in
  order. A \<open>_hidden\<close> flag says that the element carries the class \<^verbatim>\<open>d-none\<close>.
  \<open>loginButton_onclick\<close> is the handler installed on the login button.
\<close>

record state =
  actor :: "proxy option"
  internetIdentityActor :: "proxy option"
  currentDocument :: "string option"
  currentPrincipal :: "string option"
  loginButton_onclick :: "provider option"
  authSection_hidden :: bool
  appContent_hidden :: bool
  documentOutput_hidden :: bool
  buttons :: "button_id \<Rightarrow> button"
  responseArea :: string
  documentsList :: "documents_node list"
  userNameInput :: string
  userNameDisplay :: string
  userStatsDisplay :: string
  lastActiveDisplay :: string
  advicePrompt :: string
  adviceContext :: string
  confidentialCheck :: bool
  docType :: string
  docPrompt :: string
  docContext :: string
  docConfidentialCheck :: bool
  alerts :: "(string \<times> string) list"
  console :: "(string \<times> error) list"
  downloads :: "(string \<times> string) list"
  calls :: "call list"

text \<open>
  What the outside answers: the build-time configuration, the wallet and identity
  provider, the agent library, the backend and the clock. Every call into them either
  throws or returns. \<open>getPrincipal_result\<close> is the outcome of
  \<^verbatim>\<open>authClient.getPrincipal()\<close>: a client object without that member makes the call
  throw TypeError. \<open>getIdentity_result\<close>, \<open>httpAgent_result\<close> and
  \<open>createActor_result\<close> (by canister id) are the outcomes of
  \<^verbatim>\<open>authClient.getIdentity()\<close>, \<^verbatim>\<open>new HttpAgent(...)\<close> and \<^verbatim>\<open>Actor.createActor(...)\<close>.
  \<open>formatDate\<close> stands for \<^verbatim>\<open>Date.prototype.toLocaleString\<close>, which depends on the
  time zone of the browser.
\<close>

record env =
  dfx_network :: string
  backend_canister_id :: string
  internet_identity_canister_id :: string
  plug_present :: bool
  createAgent_result :: "error + unit"
  authClient_create_result :: "error + unit"
  isAuthenticated_at_load :: "error + bool"
  login_result :: "error + unit"
  isAuthenticated_after_login :: "error + bool"
  getPrincipal_result :: "error + string"
  getIdentity_result :: "error + unit"
  httpAgent_result :: "error + unit"
  fetchRootKey_result :: "error + unit"
  createActor_result :: "string \<Rightarrow> error + unit"
  advice_result :: "error + advice_response"
  document_result :: "error + document_response"
  profile_result :: "error + profile"
  documents_result :: "error + (string \<times> string) list"
  get_document_result :: "string \<Rightarrow> error + string"
  update_name_result :: "error + unit"
  today_iso :: string
  formatDate :: "int \<Rightarrow> string"

section \<open>Statements: state passing with exceptions\<close>

type_synonym 'a prog = "state \<Rightarrow> (error + 'a) \<times> state"

definition ret :: "'a \<Rightarrow> 'a prog" where
  "ret x = (\<lambda>s. (Inr x, s))"

definition throw :: "error \<Rightarrow> 'a prog" where
  "throw e = (\<lambda>s. (Inl e, s))"

definition lift :: "error + 'a \<Rightarrow> 'a prog" where
  "lift r = (\<lambda>s. (r, s))"

definition modify :: "(state \<Rightarrow> state) \<Rightarrow> unit prog" where
  "modify f = (\<lambda>s. (Inr (), f s))"

definition andThen :: "'a prog \<Rightarrow> ('a \<Rightarrow> 'b prog) \<Rightarrow> 'b prog" where
  "andThen m f = (\<lambda>s. case m s of (Inl e, s') \<Rightarrow> (Inl e, s') | (Inr x, s') \<Rightarrow> f x s')"

fun block :: "unit prog list \<Rightarrow> unit prog" where
  "block [] = ret ()"
| "block (m # ms) = andThen m (\<lambda>_. block ms)"

text \<open>\<^verbatim>\<open>try { m } catch (e) { h e }\<close> and \<^verbatim>\<open>try { m } finally { f }\<close>.\<close>

definition tryCatch :: "'a prog \<Rightarrow> (error \<Rightarrow> 'a prog) \<Rightarrow> 'a prog" where
  "tryCatch m h = (\<lambda>s. case m s of (Inl e, s') \<Rightarrow> h e s' | (Inr x, s') \<Rightarrow> (Inr x, s'))"

definition tryFinally :: "'a prog \<Rightarrow> unit prog \<Rightarrow> 'a prog" where
  "tryFinally m f =
     (\<lambda>s. case m s of (r, s') \<Rightarrow>
            (case f s' of (Inl e, s'') \<Rightarrow> (Inl e, s'') | (Inr _, s'') \<Rightarrow> (r, s'')))"

text \<open>
  A call through the agent or the identity provider: it is recorded, and its outcome
  is the one the outside gives. A call through \<^verbatim>\<open>actor\<close> first reads the member of
  \<^verbatim>\<open>actor\<close>, which throws TypeError while \<^verbatim>\<open>actor\<close> is still \<^verbatim>\<open>undefined\<close>; the
  message names the member that was read.
\<close>

fun member_name :: "call \<Rightarrow> string" where
  "member_name (CreateAgent host) = ''createAgent''"
| "member_name AuthClientCreate = ''create''"
| "member_name IsAuthenticated = ''isAuthenticated''"
| "member_name (Login options) = ''login''"
| "member_name FetchRootKey = ''fetchRootKey''"
| "member_name (GenerateLegalAdvice r) = ''generate_legal_advice''"
| "member_name (GenerateLegalDocument r) = ''generate_legal_document''"
| "member_name GetUserProfile = ''get_user_profile''"
| "member_name GetUserDocuments = ''get_user_documents''"
| "member_name (GetDocument docId) = ''get_document''"
| "member_name (UpdateUserName n) = ''update_user_name''"

definition undefined_member :: "string \<Rightarrow> error" where
  "undefined_member m =
     TypeError (''Cannot read properties of undefined (reading '' @ [CHR 0x27] @ m @
       [CHR 0x27] @ '')'')"

definition external :: "call \<Rightarrow> error + 'a \<Rightarrow> 'a prog" where
  "external c outcome = (\<lambda>s. (outcome, s\<lparr>calls := calls s @ [c]\<rparr>))"

definition remote :: "call \<Rightarrow> error + 'a \<Rightarrow> 'a prog" where
  "remote c outcome =
     (\<lambda>s. case actor s of
            None \<Rightarrow> (Inl (undefined_member (member_name c)), s)
          | Some a \<Rightarrow> external c outcome s)"

definition console_error :: "string \<Rightarrow> error \<Rightarrow> unit prog" where
  "console_error msg e = modify (\<lambda>s. s\<lparr>console := console s @ [(msg, e)]\<rparr>)"

section \<open>Helper functions of the script\<close>

text \<open>
  \<open>displayResponse\<close> writes the text into the response area after four replacements,
  the chain of \<^verbatim>\<open>replace\<close> calls of the source (here \<open>response_markup\<close>).
\<close>

definition response_markup :: "string \<Rightarrow> string" where
  "response_markup text =
     replace_all ''DISCLAIMER:'' ''<strong>DISCLAIMER:</strong>''
       (replace_all ''NOTE:'' ''<strong>NOTE:</strong>''
         (replace_all ''IMPORTANT:'' ''<strong>IMPORTANT:</strong>''
           (replace_all [CHR 0x0A] ''<br>'' text)))"

definition displayResponse :: "string \<Rightarrow> unit prog" where
  "displayResponse text = modify (\<lambda>s. s\<lparr>responseArea := response_markup text\<rparr>)"

definition spinner :: string where
  "spinner = ''<i class='' @ [CHR 0x22] @ ''fas fa-spinner fa-spin me-2'' @ [CHR 0x22] @ ''></i>''"

definition toggleButton :: "button_id \<Rightarrow> bool \<Rightarrow> unit prog" where
  "toggleButton b isLoading =
     modify (\<lambda>s.
       let button = buttons s b;
           originalText = innerHTML button
       in if isLoading
          then s\<lparr>buttons := (buttons s)
                 (b := button\<lparr>disabled := True,
                             innerHTML := spinner @ trim (textContent button)\<rparr>)\<rparr>
          else s\<lparr>buttons := (buttons s)
                 (b := button\<lparr>disabled := False, innerHTML := originalText\<rparr>)\<rparr>)"

text \<open>The notification is recorded with its message and its type.\<close>

definition showAlert :: "string \<Rightarrow> string \<Rightarrow> unit prog" where
  "showAlert msg type = modify (\<lambda>s. s\<lparr>alerts := alerts s @ [(msg, type)]\<rparr>)"

section \<open>Loading the profile and the document list\<close>

definition loadUserProfile :: "env \<Rightarrow> unit prog" where
  "loadUserProfile env =
     tryCatch
       (andThen (remote GetUserProfile (profile_result env)) (\<lambda>profile.
        andThen (lift (array_call ''profile.name'' (name profile) ''unwrap_or'' [''User''])) (\<lambda>shown.
        andThen (modify (\<lambda>s. s\<lparr>userNameDisplay := shown\<rparr>)) (\<lambda>_.
        andThen (modify (\<lambda>s. s\<lparr>userStatsDisplay :=
                   show_int (document_count profile) @ '' documents generated''\<rparr>)) (\<lambda>_.
        andThen (lift (js_div_bigint (JBigInt (last_active profile)) 1000000)) (\<lambda>lastActiveDate.
        andThen (modify (\<lambda>s. s\<lparr>lastActiveDisplay :=
                   ''Last active: '' @ formatDate env lastActiveDate\<rparr>)) (\<lambda>_.
        if length (name profile) > 0
        then modify (\<lambda>s. s\<lparr>userNameInput := hd (name profile)\<rparr>)
        else ret ())))))))
       (\<lambda>error. console_error ''Error loading user profile:'' error)"

definition docPreview :: "string \<Rightarrow> string" where
  "docPreview content =
     (if length content > 100 then take 100 content @ ''...'' else content)"

text \<open>The body of the \<^verbatim>\<open>docs.forEach\<close> callback, for one pair \<^verbatim>\<open>[docId, content]\<close>.\<close>

definition renderDocument :: "env \<Rightarrow> string \<times> string \<Rightarrow> unit prog" where
  "renderDocument env = (\<lambda>(docId, content).
     andThen (lift (js_div_bigint (index (split_on CHR ''_'' docId) 2) 1000000)) (\<lambda>docDate.
       modify (\<lambda>s. s\<lparr>documentsList := documentsList s @
         [Item \<lparr>doc_label = interpolate (index (split_on CHR ''_'' docId) 1),
                doc_date = formatDate env docDate,
                doc_preview = docPreview content,
                doc_id = docId\<rparr>]\<rparr>)))"

fun forEach :: "('a \<Rightarrow> unit prog) \<Rightarrow> 'a list \<Rightarrow> unit prog" where
  "forEach f [] = ret ()"
| "forEach f (x # xs) = andThen (f x) (\<lambda>_. forEach f xs)"

definition loadUserDocuments :: "env \<Rightarrow> unit prog" where
  "loadUserDocuments env =
     tryCatch
       (andThen (remote GetUserDocuments (documents_result env)) (\<lambda>docs.
          if length docs = 0
          then modify (\<lambda>s. s\<lparr>documentsList := [NoDocuments]\<rparr>)
          else andThen (modify (\<lambda>s. s\<lparr>documentsList := []\<rparr>)) (\<lambda>_.
                 forEach (renderDocument env) docs)))
       (\<lambda>error. block
          [console_error ''Error loading documents:'' error,
           modify (\<lambda>s. s\<lparr>documentsList := [LoadError]\<rparr>)])"

text \<open>The click handler of the "view" button of the entry \<open>docId\<close>.\<close>

definition viewDoc_click :: "env \<Rightarrow> string \<Rightarrow> unit prog" where
  "viewDoc_click env docId =
     tryCatch
       (andThen (remote (GetDocument docId) (get_document_result env docId)) (\<lambda>docContent.
          block
            [displayResponse docContent,
             modify (\<lambda>s. s\<lparr>currentDocument := Some docContent\<rparr>),
             modify (\<lambda>s. s\<lparr>documentOutput_hidden := False\<rparr>)]))
       (\<lambda>error. block
          [console_error ''Error fetching document:'' error,
           displayResponse ''Error loading document''])"

section \<open>The command handlers\<close>

text \<open>\<^verbatim>\<open>a || b\<close> on strings: the empty string is falsy.\<close>

definition or_else :: "string \<Rightarrow> string \<Rightarrow> string" where
  "or_else a b = (if a = [] then b else a)"

definition or_null :: "string \<Rightarrow> string option" where
  "or_null a = (if a = [] then None else Some a)"

text \<open>\<^verbatim>\<open>!currentDocument\<close>: true for \<^verbatim>\<open>null\<close> and for the empty string.\<close>

definition no_document :: "string option \<Rightarrow> bool" where
  "no_document d = (case d of None \<Rightarrow> True | Some t \<Rightarrow> t = [])"

definition getAdvice_click :: "env \<Rightarrow> unit prog" where
  "getAdvice_click env = (\<lambda>s.
     let prompt = advicePrompt s;
         context = adviceContext s;
         isConfidential = confidentialCheck s
     in (if prompt = []
         then showAlert ''Please enter your legal question'' ''warning''
         else
           tryFinally
             (tryCatch
               (andThen (toggleButton GetAdviceBtn True) (\<lambda>_.
                andThen (remote
                   (GenerateLegalAdvice
                      \<lparr>prompt = prompt, document_type = None,
                       request_context = or_null context,
                       is_confidential = isConfidential\<rparr>)
                   (advice_result env)) (\<lambda>response.
                if status response = ''success''
                then block
                  [displayResponse (advice_response.response response),
                   modify (\<lambda>s. s\<lparr>currentDocument := None\<rparr>),
                   modify (\<lambda>s. s\<lparr>documentOutput_hidden := True\<rparr>)]
                else throw (Error ''[object Object]''))))
               (\<lambda>error. block
                  [console_error ''Error getting legal advice:'' error,
                   displayResponse
                     (''Error: '' @ or_else (message error) ''Failed to get legal advice'')]))
             (block [toggleButton GetAdviceBtn False, loadUserProfile env])) s)"

definition generateDoc_click :: "env \<Rightarrow> unit prog" where
  "generateDoc_click env = (\<lambda>s.
     let docType = docType s;
         prompt = docPrompt s;
         context = docContext s;
         isConfidential = docConfidentialCheck s
     in (if prompt = []
         then showAlert ''Please describe the document you need'' ''warning''
         else
           tryFinally
             (tryCatch
               (andThen (toggleButton GenerateDocBtn True) (\<lambda>_.
                andThen (remote
                   (GenerateLegalDocument
                      \<lparr>prompt = prompt, document_type = Some docType,
                       request_context = or_null context,
                       is_confidential = isConfidential\<rparr>)
                   (document_result env)) (\<lambda>response.
                if doc_status response = ''success'' \<and> \<not> no_document (document response)
                then block
                  [displayResponse (the (document response)),
                   modify (\<lambda>s. s\<lparr>currentDocument := document response\<rparr>),
                   modify (\<lambda>s. s\<lparr>documentOutput_hidden := False\<rparr>)]
                else throw (Error ''Document generation failed''))))
               (\<lambda>error. block
                  [console_error ''Error generating document:'' error,
                   displayResponse
                     (''Error: '' @ or_else (message error) ''Failed to generate document'')]))
             (block [toggleButton GenerateDocBtn False, loadUserProfile env])) s)"

text \<open>
  The download is recorded as the file name and the text offered; the name carries the
  first ten characters of the ISO form of the current date.
\<close>

definition downloadDoc_click :: "env \<Rightarrow> unit prog" where
  "downloadDoc_click env = (\<lambda>s.
     (if no_document (currentDocument s) then ret ()
      else modify (\<lambda>s. s\<lparr>downloads := downloads s @
             [(''legal_document_'' @ take 10 (today_iso env) @ ''.txt'',
               the (currentDocument s))]\<rparr>)) s)"

definition saveDoc_click :: "env \<Rightarrow> unit prog" where
  "saveDoc_click env = (\<lambda>s.
     (if no_document (currentDocument s) then ret ()
      else
        tryFinally
          (tryCatch
            (block
               [toggleButton SaveDocBtn True,
                loadUserDocuments env,
                showAlert ''Document saved successfully!'' ''success''])
            (\<lambda>error. block
               [console_error ''Error saving document:'' error,
                showAlert ''Failed to save document'' ''danger'']))
          (toggleButton SaveDocBtn False)) s)"

definition updateName_click :: "env \<Rightarrow> unit prog" where
  "updateName_click env = (\<lambda>s.
     let name = trim (userNameInput s)
     in (if name = []
         then showAlert ''Please enter a name'' ''warning''
         else
           tryFinally
             (tryCatch
               (block
                  [toggleButton UpdateNameBtn True,
                   remote (UpdateUserName name) (update_name_result env),
                   loadUserProfile env,
                   showAlert ''Name updated successfully!'' ''success''])
               (\<lambda>error. block
                  [console_error ''Error updating name:'' error,
                   showAlert ''Failed to update name'' ''danger'']))
             (toggleButton UpdateNameBtn False)) s)"

section \<open>Bootstrap\<close>

text \<open>
  \<open>handleAuthenticated\<close>, statement by statement: the principal is read from the client
  and stored, the two views are swapped, the agent is built from the identity of the
  client, the root key is fetched unless the network is the production network, the
  two proxies are created, and the two loaders are started. Each call into the client
  or the agent library may throw, and then the rest is not run.
\<close>

definition handleAuthenticated :: "env \<Rightarrow> unit prog" where
  "handleAuthenticated env =
     (let host = (if dfx_network env = ''ic'' then ''https://ic0.app''
                  else ''http://127.0.0.1:4943'')
      in block
        [andThen (lift (getPrincipal_result env)) (\<lambda>p.
           modify (\<lambda>s. s\<lparr>currentPrincipal := Some p\<rparr>)),
         modify (\<lambda>s. s\<lparr>authSection_hidden := True\<rparr>),
         modify (\<lambda>s. s\<lparr>appContent_hidden := False\<rparr>),
         andThen (lift (getIdentity_result env)) (\<lambda>_. lift (httpAgent_result env)),
         (if dfx_network env \<noteq> ''ic''
          then external FetchRootKey (fetchRootKey_result env)
          else ret ()),
         andThen (lift (createActor_result env (backend_canister_id env))) (\<lambda>_.
           modify (\<lambda>s. s\<lparr>actor := Some (Proxy host (backend_canister_id env))\<rparr>)),
         andThen (lift (createActor_result env (internet_identity_canister_id env))) (\<lambda>_.
           modify (\<lambda>s. s\<lparr>internetIdentityActor :=
                     Some (Proxy host (internet_identity_canister_id env))\<rparr>)),
         loadUserProfile env,
         loadUserDocuments env])"

text \<open>
  The handler stored in \<^verbatim>\<open>loginButton.onclick\<close>. It runs when the button is clicked,
  after \<^verbatim>\<open>window.onload\<close> and \<^verbatim>\<open>initII\<close> have returned, so no \<^verbatim>\<open>try\<close> of theirs
  encloses it: an exception leaves it as the result \<open>Inl\<close> (a rejected promise that
  nothing handles).
\<close>

definition login_handler :: "provider \<Rightarrow> env \<Rightarrow> unit prog" where
  "login_handler p env =
     andThen (external
        (Login (case p of Plug \<Rightarrow> None
                | InternetIdentity \<Rightarrow> Some ''https://identity.ic0.app''))
        (login_result env)) (\<lambda>_.
     andThen (external IsAuthenticated (isAuthenticated_after_login env)) (\<lambda>authenticated.
     if authenticated then handleAuthenticated env else ret ()))"

definition loginButton_click :: "env \<Rightarrow> unit prog" where
  "loginButton_click env = (\<lambda>s.
     (case loginButton_onclick s of
        None \<Rightarrow> ret ()
      | Some p \<Rightarrow> login_handler p env) s)"

definition initII :: "env \<Rightarrow> unit prog" where
  "initII env =
     tryCatch
       (andThen (external
          (CreateAgent (if dfx_network env = ''ic'' then ''https://ic0.app''
                        else ''http://localhost:4943''))
          (createAgent_result env)) (\<lambda>_.
        andThen (external IsAuthenticated (isAuthenticated_at_load env)) (\<lambda>authenticated.
        if authenticated then handleAuthenticated env
        else modify (\<lambda>s. s\<lparr>loginButton_onclick := Some Plug\<rparr>))))
       (\<lambda>error. block
          [console_error ''Error initializing Internet Identity:'' error,
           showAlert ''Error initializing authentication. Please try again.'' ''danger''])"

definition window_onload :: "env \<Rightarrow> unit prog" where
  "window_onload env =
     tryCatch
       (if plug_present env then initII env
        else
          andThen (external AuthClientCreate (authClient_create_result env)) (\<lambda>_.
          andThen (external IsAuthenticated (isAuthenticated_at_load env)) (\<lambda>authenticated.
          if authenticated then handleAuthenticated env
          else modify (\<lambda>s. s\<lparr>loginButton_onclick := Some InternetIdentity\<rparr>))))
       (\<lambda>error. block
          [console_error ''Auth error:'' error,
           showAlert ''Authentication failed. Try refreshing or install Plug Wallet.''
             ''danger''])"

section \<open>A concrete page and a concrete outside\<close>

text \<open>
  The markup of the page is not part of the script, so the labels and texts below are
  examples. \<open>example_page\<close> is a page on which the script has not run yet;
  \<open>waiting_page\<close> is the same page after \<open>window_onload\<close> has found no session and has
  installed the login handler; \<open>signed_in_page\<close> has its proxies; \<open>asking_page\<close>
  has its forms filled in; \<open>stalled_page\<close> shows the application view and has its
  forms filled in, but has no proxy. In \<open>example_env\<close> every call succeeds, the
  network is a local one, and \<open>formatDate\<close> prints the milliseconds.
  \<open>auth_client_env\<close> differs in the client: it is the \<^verbatim>\<open>AuthClient\<close> of
  \<^verbatim>\<open>@dfinity/auth-client\<close>, which has the members \<^verbatim>\<open>create\<close>, \<^verbatim>\<open>getIdentity\<close>,
  \<^verbatim>\<open>isAuthenticated\<close>, \<^verbatim>\<open>login\<close> and \<^verbatim>\<open>logout\<close>, but no \<^verbatim>\<open>getPrincipal\<close>.
\<close>

definition example_env :: env where
  "example_env =
     \<lparr>dfx_network = ''local'',
      backend_canister_id = ''backend'',
      internet_identity_canister_id = ''identity'',
      plug_present = False,
      createAgent_result = Inr (),
      authClient_create_result = Inr (),
      isAuthenticated_at_load = Inr False,
      login_result = Inr (),
      isAuthenticated_after_login = Inr True,
      getPrincipal_result = Inr ''2vxsx-fae'',
      getIdentity_result = Inr (),
      httpAgent_result = Inr (),
      fetchRootKey_result = Inr (),
      createActor_result = (\<lambda>canisterId. Inr ()),
      advice_result = Inr \<lparr>status = ''success'', response = ''Give notice in writing.''\<rparr>,
      document_result = Inr \<lparr>doc_status = ''success'', document = Some ''LEASE AGREEMENT''\<rparr>,
      profile_result =
        Inr \<lparr>name = [], document_count = 3, last_active = 1700000000000000000\<rparr>,
      documents_result =
        Inr [(''advice_ContractReview_1700000000000000000'', ''Review of the contract'')],
      get_document_result = (\<lambda>docId. Inr ''Review of the contract''),
      update_name_result = Inr (),
      today_iso = ''2024-01-15T10:00:00.000Z'',
      formatDate = show_int\<rparr>"

definition auth_client_env :: env where
  "auth_client_env =
     example_env
       \<lparr>getPrincipal_result :=
          Inl (TypeError ''authClient.getPrincipal is not a function'')\<rparr>"

fun example_label :: "button_id \<Rightarrow> string" where
  "example_label GetAdviceBtn = ''Get Advice''"
| "example_label GenerateDocBtn = ''Generate Document''"
| "example_label SaveDocBtn = ''Save''"
| "example_label UpdateNameBtn = ''Update''"

definition example_page :: state where
  "example_page =
     \<lparr>actor = None,
      internetIdentityActor = None,
      currentDocument = None,
      currentPrincipal = None,
      loginButton_onclick = None,
      authSection_hidden = False,
      appContent_hidden = True,
      documentOutput_hidden = True,
      buttons = (\<lambda>b. \<lparr>disabled = False, innerHTML = example_label b\<rparr>),
      responseArea = [],
      documentsList = [StaticMarkup],
      userNameInput = [],
      userNameDisplay = [],
      userStatsDisplay = [],
      lastActiveDisplay = [],
      advicePrompt = [],
      adviceContext = [],
      confidentialCheck = False,
      docType = ''contract'',
      docPrompt = [],
      docContext = [],
      docConfidentialCheck = False,
      alerts = [],
      console = [],
      downloads = [],
      calls = []\<rparr>"

definition waiting_page :: state where
  "waiting_page =
     example_page
       \<lparr>loginButton_onclick := Some InternetIdentity,
        calls := [AuthClientCreate, IsAuthenticated]\<rparr>"

definition signed_in_page :: state where
  "signed_in_page =
     example_page
       \<lparr>actor := Some (Proxy ''http://127.0.0.1:4943'' ''backend''),
        internetIdentityActor := Some (Proxy ''http://127.0.0.1:4943'' ''identity''),
        currentPrincipal := Some ''2vxsx-fae'',
        authSection_hidden := True,
        appContent_hidden := False\<rparr>"

definition asking_page :: state where
  "asking_page =
     signed_in_page
       \<lparr>advicePrompt := ''Can my landlord evict me?'',
        adviceContext := ''Nairobi'',
        confidentialCheck := True,
        docPrompt := ''A lease for a flat'',
        userNameInput := '' Wanjiru '',
        currentDocument := Some ''LEASE AGREEMENT''\<rparr>"

definition stalled_page :: state where
  "stalled_page =
     example_page
       \<lparr>currentPrincipal := Some ''2vxsx-fae'',
        authSection_hidden := True,
        appContent_hidden := False,
        advicePrompt := ''Can my landlord evict me?'',
        docPrompt := ''A lease for a flat'',
        alerts :=
          [(''Authentication failed. Try refreshing or install Plug Wallet.'', ''danger'')],
        console := [(''Auth error:'', Error ''fetch failed'')],
        calls := [AuthClientCreate, IsAuthenticated, FetchRootKey]\<rparr>"

section \<open>What the loaders do\<close>

lemmas prog_defs = ret_def throw_def lift_def modify_def andThen_def tryCatch_def
  tryFinally_def external_def remote_def console_error_def showAlert_def

lemmas example_defs = example_env_def example_page_def waiting_page_def signed_in_page_def
  asking_page_def auth_client_env_def stalled_page_def

text \<open>
  The response renderer on a text with two markers and a line break: both markers are
  wrapped in strong emphasis and the line break becomes \<^verbatim>\<open><br>\<close>.
\<close>

lemma response_markup_example:
  "response_markup (''DISCLAIMER: x'' @ [CHR 0x0A] @ ''NOTE: y'') =
     ''<strong>DISCLAIMER:</strong> x<br><strong>NOTE:</strong> y''"
  by (simp add: response_markup_def replace_all_def)

text \<open>No array has a member \<^verbatim>\<open>unwrap_or\<close>.\<close>

lemma array_call_unwrap_or:
  "array_call ''profile.name'' arr ''unwrap_or'' args =
     Inl (TypeError ''profile.name.unwrap_or is not a function'')"
  by (simp add: array_call_def array_prototype_names_def)

text \<open>
  So \<open>loadUserProfile\<close> ends in its \<^verbatim>\<open>catch\<close> on every run: it writes to the diagnostic
  log and, when the proxy exists, it has made its one call. Nothing else changes.
\<close>

lemma loadUserProfile_run:
  "loadUserProfile env s =
     (Inr (),
      s\<lparr>calls := calls s @ (if actor s = None then [] else [GetUserProfile]),
        console := console s @
          [(''Error loading user profile:'',
            case actor s of
              None \<Rightarrow> undefined_member ''get_user_profile''
            | Some a \<Rightarrow>
                (case profile_result env of
                   Inl e \<Rightarrow> e
                 | Inr p \<Rightarrow> TypeError ''profile.name.unwrap_or is not a function''))]\<rparr>)"
  by (cases "actor s"; cases "profile_result env")
     (simp_all add: loadUserProfile_def prog_defs array_call_unwrap_or)

lemma loadUserProfile_displays:
  "userNameDisplay (snd (loadUserProfile env s)) = userNameDisplay s \<and>
   userStatsDisplay (snd (loadUserProfile env s)) = userStatsDisplay s \<and>
   lastActiveDisplay (snd (loadUserProfile env s)) = lastActiveDisplay s \<and>
   userNameInput (snd (loadUserProfile env s)) = userNameInput s"
  by (simp add: loadUserProfile_run)

text \<open>An element of a split string is a string or \<^verbatim>\<open>undefined\<close>, never a BigInt.\<close>

lemma index_not_bigint: "index xs i \<noteq> JBigInt n"
  by (induction xs i rule: index.induct) simp_all

lemma js_div_index:
  "js_div_bigint (index xs i) b =
     Inl (TypeError ''Cannot mix BigInt and other types, use explicit conversions'')"
  by (cases "index xs i") (simp_all add: index_not_bigint)

lemma renderDocument_throws:
  "renderDocument env d s =
     (Inl (TypeError ''Cannot mix BigInt and other types, use explicit conversions''), s)"
  by (cases d) (simp add: renderDocument_def prog_defs js_div_index)

text \<open>
  So \<open>loadUserDocuments\<close> shows the placeholder for an empty list and the error message
  in every other case.
\<close>

lemma loadUserDocuments_run:
  "loadUserDocuments env s =
     (Inr (),
      s\<lparr>calls := calls s @ (if actor s = None then [] else [GetUserDocuments]),
        console := console s @
          (case actor s of
             None \<Rightarrow> [(''Error loading documents:'',
                       undefined_member ''get_user_documents'')]
           | Some a \<Rightarrow>
               (case documents_result env of
                  Inl e \<Rightarrow> [(''Error loading documents:'', e)]
                | Inr docs \<Rightarrow>
                    if docs = [] then []
                    else [(''Error loading documents:'',
                           TypeError
                             ''Cannot mix BigInt and other types, use explicit conversions'')])),
        documentsList :=
          (if actor s \<noteq> None \<and> documents_result env = Inr [] then [NoDocuments]
           else [LoadError])\<rparr>)"
proof (cases "actor s")
  case None
  then show ?thesis
    by (simp add: loadUserDocuments_def prog_defs)
next
  case (Some a)
  show ?thesis
  proof (cases "documents_result env")
    case (Inl e)
    with Some show ?thesis
      by (simp add: loadUserDocuments_def prog_defs)
  next
    case (Inr docs)
    with Some show ?thesis
      by (cases docs) (simp_all add: loadUserDocuments_def prog_defs renderDocument_throws)
  qed
qed

lemma loadUserDocuments_no_entry:
  "documentsList (snd (loadUserDocuments env s)) = [NoDocuments] \<or>
   documentsList (snd (loadUserDocuments env s)) = [LoadError]"
  by (simp add: loadUserDocuments_run)

section \<open>The trigger buttons\<close>

text \<open>
  \<open>toggleButton\<close> reads \<^verbatim>\<open>originalText\<close> anew on each call, so the second call of a
  pair writes back the busy markup it finds.
\<close>

lemma toggleButton_roundtrip:
  "buttons (snd (toggleButton b False (snd (toggleButton b True s)))) b =
     \<lparr>disabled = False, innerHTML = spinner @ trim (textContent (buttons s b))\<rparr>"
  by (simp add: toggleButton_def modify_def Let_def)

lemma getAdvice_click_button:
  "advicePrompt s \<noteq> [] \<Longrightarrow>
   buttons (snd (getAdvice_click env s)) GetAdviceBtn =
     \<lparr>disabled = False,
      innerHTML = spinner @ trim (textContent (buttons s GetAdviceBtn))\<rparr>"
  by (cases "actor s"; cases "advice_result env")
     (simp_all add: getAdvice_click_def toggleButton_def displayResponse_def prog_defs
        loadUserProfile_run Let_def)

lemma generateDoc_click_button:
  "docPrompt s \<noteq> [] \<Longrightarrow>
   buttons (snd (generateDoc_click env s)) GenerateDocBtn =
     \<lparr>disabled = False,
      innerHTML = spinner @ trim (textContent (buttons s GenerateDocBtn))\<rparr>"
  by (cases "actor s"; cases "document_result env")
     (simp_all add: generateDoc_click_def toggleButton_def displayResponse_def prog_defs
        loadUserProfile_run Let_def)

lemma saveDoc_click_button:
  "\<not> no_document (currentDocument s) \<Longrightarrow>
   buttons (snd (saveDoc_click env s)) SaveDocBtn =
     \<lparr>disabled = False,
      innerHTML = spinner @ trim (textContent (buttons s SaveDocBtn))\<rparr>"
  by (simp add: saveDoc_click_def toggleButton_def prog_defs loadUserDocuments_run Let_def)

lemma updateName_click_button:
  "trim (userNameInput s) \<noteq> [] \<Longrightarrow>
   buttons (snd (updateName_click env s)) UpdateNameBtn =
     \<lparr>disabled = False,
      innerHTML = spinner @ trim (textContent (buttons s UpdateNameBtn))\<rparr>"
  by (cases "actor s"; cases "update_name_result env")
     (simp_all add: updateName_click_def toggleButton_def prog_defs
        loadUserProfile_run Let_def)

lemma example_label_text: "trim (strip_tags False (example_label b)) = example_label b"
  by (cases b) (simp_all add: trim_def is_space_def)

text \<open>
  C1. For every user-triggered command the trigger button is busy (disabled, with the
  in-progress label) from the start of the invocation to its completion, and on every
  exit path (success, tagged failure, thrown error) it is restored to its idle state,
  its original label included. The code restores the \<^verbatim>\<open>disabled\<close> flag on every path,
  but not the label: a button labelled "Get Advice" carries the spinner markup after
  the advice command has completed, whether the call succeeded, returned a failure tag
  or threw; the same holds for the three other commands.
\<close>

theorem trigger_label_not_restored:
  "innerHTML (buttons asking_page GetAdviceBtn) = ''Get Advice'' \<and>
   buttons (snd (getAdvice_click example_env asking_page)) GetAdviceBtn =
     \<lparr>disabled = False, innerHTML = spinner @ ''Get Advice''\<rparr> \<and>
   buttons (snd (getAdvice_click
       (example_env\<lparr>advice_result := Inr \<lparr>status = ''error'', response = []\<rparr>\<rparr>)
       asking_page)) GetAdviceBtn =
     \<lparr>disabled = False, innerHTML = spinner @ ''Get Advice''\<rparr> \<and>
   buttons (snd (getAdvice_click
       (example_env\<lparr>advice_result := Inl (Error ''Call was rejected'')\<rparr>)
       asking_page)) GetAdviceBtn =
     \<lparr>disabled = False, innerHTML = spinner @ ''Get Advice''\<rparr> \<and>
   buttons (snd (generateDoc_click example_env asking_page)) GenerateDocBtn =
     \<lparr>disabled = False, innerHTML = spinner @ ''Generate Document''\<rparr> \<and>
   buttons (snd (saveDoc_click example_env asking_page)) SaveDocBtn =
     \<lparr>disabled = False, innerHTML = spinner @ ''Save''\<rparr> \<and>
   buttons (snd (updateName_click example_env asking_page)) UpdateNameBtn =
     \<lparr>disabled = False, innerHTML = spinner @ ''Update''\<rparr> \<and>
   spinner @ ''Get Advice'' \<noteq> ''Get Advice''"
proof -
  have p: "advicePrompt asking_page \<noteq> []" "docPrompt asking_page \<noteq> []"
    "\<not> no_document (currentDocument asking_page)"
    by (simp_all add: example_defs no_document_def)
  have n: "trim (userNameInput asking_page) \<noteq> []"
    by (simp add: example_defs trim_def is_space_def)
  have l: "\<And>b. trim (textContent (buttons asking_page b)) = example_label b"
    by (simp add: example_defs textContent_def example_label_text)
  have i: "innerHTML (buttons asking_page GetAdviceBtn) = ''Get Advice''"
    by (simp add: example_defs)
  have d: "spinner \<noteq> []"
    by (simp add: spinner_def)
  show ?thesis
    by (simp add: getAdvice_click_button generateDoc_click_button saveDoc_click_button
        updateName_click_button p n l i d)
qed

section \<open>The renderers\<close>

text \<open>
  C2. For the document id "advice_ContractReview_1700000000000000000" the document
  list renderer derives the label "ContractReview" and a creation date from the
  nanosecond timestamp, without throwing. The id does split into these parts, but the
  renderer divides the third part, a string, by the BigInt 1000000n: the division
  throws TypeError before anything is rendered, and the list shows the "error loading
  documents" message instead of the entry.
\<close>

theorem document_entry_division_throws:
  "index (split_on CHR ''_'' ''advice_ContractReview_1700000000000000000'') 1 =
     JString ''ContractReview'' \<and>
   index (split_on CHR ''_'' ''advice_ContractReview_1700000000000000000'') 2 =
     JString ''1700000000000000000'' \<and>
   renderDocument example_env
       (''advice_ContractReview_1700000000000000000'', ''Review of the contract'')
       signed_in_page =
     (Inl (TypeError ''Cannot mix BigInt and other types, use explicit conversions''),
      signed_in_page) \<and>
   documents_result example_env =
     Inr [(''advice_ContractReview_1700000000000000000'', ''Review of the contract'')] \<and>
   documentsList (snd (loadUserDocuments example_env signed_in_page)) = [LoadError]"
proof -
  have parts: "split_on CHR ''_'' ''advice_ContractReview_1700000000000000000'' =
      [''advice'', ''ContractReview'', ''1700000000000000000'']"
    by simp
  have docs: "documents_result example_env =
      Inr [(''advice_ContractReview_1700000000000000000'', ''Review of the contract'')]"
    by (simp add: example_env_def)
  have shown: "documentsList (snd (loadUserDocuments example_env signed_in_page)) = [LoadError]"
    by (simp add: loadUserDocuments_run docs)
  show ?thesis
    by (simp add: parts docs shown renderDocument_throws numeral_2_eq_2)
qed

text \<open>
  C3. When the fetched profile has no name, the profile renderer shows the default name
  "User", shows "{count} documents generated" and converts the nanosecond timestamp
  \<^verbatim>\<open>last_active\<close> to a date, without throwing. In the code the absent name is the empty
  array, the call of \<^verbatim>\<open>unwrap_or\<close> on it throws TypeError, and the \<^verbatim>\<open>catch\<close> of the
  loader only logs it: none of the three texts is written.
\<close>

theorem profile_unwrap_or_throws:
  "profile_result example_env =
     Inr \<lparr>name = [], document_count = 3, last_active = 1700000000000000000\<rparr> \<and>
   loadUserProfile example_env signed_in_page =
     (Inr (),
      signed_in_page
        \<lparr>calls := [GetUserProfile],
         console := [(''Error loading user profile:'',
                      TypeError ''profile.name.unwrap_or is not a function'')]\<rparr>) \<and>
   userNameDisplay (snd (loadUserProfile example_env signed_in_page)) \<noteq> ''User'' \<and>
   userStatsDisplay (snd (loadUserProfile example_env signed_in_page)) \<noteq>
     ''3 documents generated'' \<and>
   lastActiveDisplay (snd (loadUserProfile example_env signed_in_page)) = []"
proof -
  have prof: "profile_result example_env =
      Inr \<lparr>name = [], document_count = 3, last_active = 1700000000000000000\<rparr>"
    by (simp add: example_env_def)
  have page: "actor signed_in_page = Some (Proxy ''http://127.0.0.1:4943'' ''backend'')"
    "calls signed_in_page = []" "console signed_in_page = []"
    "userNameDisplay signed_in_page = []" "userStatsDisplay signed_in_page = []"
    "lastActiveDisplay signed_in_page = []"
    by (simp_all add: signed_in_page_def example_page_def)
  have run: "loadUserProfile example_env signed_in_page =
     (Inr (),
      signed_in_page
        \<lparr>calls := [GetUserProfile],
         console := [(''Error loading user profile:'',
                      TypeError ''profile.name.unwrap_or is not a function'')]\<rparr>)"
    by (simp add: loadUserProfile_run prof page(1,2,3))
  show ?thesis
    by (simp add: prof run page(4,5,6))
qed

text \<open>
  The preview that the callback computes: the content itself up to 100 characters, the
  first 100 characters and "..." beyond.
\<close>

lemma docPreview_value:
  "docPreview content =
     (if length content \<le> 100 then content else take 100 content @ ''...'')"
  by (simp add: docPreview_def)

text \<open>No run of the loader leaves an entry, and so a preview, in the document list.\<close>

lemma loadUserDocuments_never_an_item:
  "Item e \<notin> set (documentsList (snd (loadUserDocuments env s)))"
  by (simp add: loadUserDocuments_run)

text \<open>
  C9. The preview shown in the document list is the content unchanged when it has at
  most 100 characters, and its first 100 characters followed by an ellipsis when it has
  more. The callback computes that preview on its first line, and throws on its second
  (the division of C2) before the entry is built: for a content of 150 characters and
  for one of 50 the list shows the "error loading documents" message and no preview.
\<close>

theorem preview_never_shown:
  "docPreview (replicate 150 (CHR ''a'')) = replicate 100 (CHR ''a'') @ ''...'' \<and>
   documentsList (snd (loadUserDocuments
       (example_env\<lparr>documents_result :=
          Inr [(''advice_ContractReview_1700000000000000000'', replicate 150 (CHR ''a''))]\<rparr>)
       signed_in_page)) = [LoadError] \<and>
   docPreview (replicate 50 (CHR ''a'')) = replicate 50 (CHR ''a'') \<and>
   documentsList (snd (loadUserDocuments
       (example_env\<lparr>documents_result :=
          Inr [(''advice_ContractReview_1700000000000000000'', replicate 50 (CHR ''a''))]\<rparr>)
       signed_in_page)) = [LoadError]"
  by (simp add: docPreview_value loadUserDocuments_run)

section \<open>Validation and the calls of the commands\<close>

text \<open>
  C6. When the advice command or the document command is invoked with an empty prompt,
  no remote call is made, a warning notification is shown, and the trigger button stays
  as it was (enabled): the only change of the state is the new notification.
\<close>

theorem empty_prompt_warns_without_call:
  "(advicePrompt s = [] \<longrightarrow>
      getAdvice_click env s =
        (Inr (),
         s\<lparr>alerts := alerts s @ [(''Please enter your legal question'', ''warning'')]\<rparr>)) \<and>
   (docPrompt s = [] \<longrightarrow>
      generateDoc_click env s =
        (Inr (),
         s\<lparr>alerts := alerts s @
             [(''Please describe the document you need'', ''warning'')]\<rparr>))"
  by (simp add: getAdvice_click_def generateDoc_click_def showAlert_def modify_def Let_def)

theorem empty_prompt_warns_without_call_witness:
  "advicePrompt signed_in_page = [] \<and> docPrompt signed_in_page = [] \<and>
   calls (snd (getAdvice_click example_env signed_in_page)) = calls signed_in_page \<and>
   calls (snd (generateDoc_click example_env signed_in_page)) = calls signed_in_page \<and>
   alerts (snd (getAdvice_click example_env signed_in_page)) =
     [(''Please enter your legal question'', ''warning'')] \<and>
   alerts (snd (generateDoc_click example_env signed_in_page)) =
     [(''Please describe the document you need'', ''warning'')] \<and>
   disabled (buttons (snd (getAdvice_click example_env signed_in_page)) GetAdviceBtn) = False \<and>
   disabled (buttons (snd (generateDoc_click example_env signed_in_page)) GenerateDocBtn)
     = False"
proof -
  have e: "advicePrompt signed_in_page = []" "docPrompt signed_in_page = []"
    by (simp_all add: signed_in_page_def example_page_def)
  have b: "alerts signed_in_page = []"
    "disabled (buttons signed_in_page GetAdviceBtn) = False"
    "disabled (buttons signed_in_page GenerateDocBtn) = False"
    by (simp_all add: signed_in_page_def example_page_def)
  from empty_prompt_warns_without_call [of signed_in_page example_env] e
  have "getAdvice_click example_env signed_in_page =
          (Inr (), signed_in_page
             \<lparr>alerts := alerts signed_in_page @
                [(''Please enter your legal question'', ''warning'')]\<rparr>)"
    and "generateDoc_click example_env signed_in_page =
          (Inr (), signed_in_page
             \<lparr>alerts := alerts signed_in_page @
                [(''Please describe the document you need'', ''warning'')]\<rparr>)"
    by simp_all
  then show ?thesis
    by (simp add: e b)
qed










text \<open>
  C10. While there is no current document (\<^verbatim>\<open>currentDocument\<close> is \<^verbatim>\<open>null\<close>), a click
  on the download trigger or on the save trigger does nothing: no call, no
  notification, no change of the state.
\<close>

theorem no_document_silent_noop:
  "currentDocument s = None \<Longrightarrow>
   downloadDoc_click env s = (Inr (), s) \<and> saveDoc_click env s = (Inr (), s)"
  by (simp add: downloadDoc_click_def saveDoc_click_def no_document_def ret_def)

theorem no_document_silent_noop_witness:
  "currentDocument signed_in_page = None \<and>
   downloadDoc_click example_env signed_in_page = (Inr (), signed_in_page) \<and>
   saveDoc_click example_env signed_in_page = (Inr (), signed_in_page)"
proof -
  have n: "currentDocument signed_in_page = None"
    by (simp add: signed_in_page_def example_page_def)
  from no_document_silent_noop [OF n, of example_env] n show ?thesis
    by simp
qed

section \<open>Bootstrap\<close>

text \<open>
  When the client has no usable \<^verbatim>\<open>getPrincipal\<close>, \<open>handleAuthenticated\<close> throws on its
  first line and changes nothing.
\<close>

lemma handleAuthenticated_no_principal:
  "getPrincipal_result env = Inl e \<Longrightarrow> handleAuthenticated env s = (Inl e, s)"
  by (simp add: handleAuthenticated_def lift_def andThen_def Let_def)

lemma auth_client_env_facts:
  "dfx_network auth_client_env = ''local''"
  "plug_present auth_client_env = False"
  "authClient_create_result auth_client_env = Inr ()"
  "isAuthenticated_at_load auth_client_env = Inr False"
  "login_result auth_client_env = Inr ()"
  "isAuthenticated_after_login auth_client_env = Inr True"
  "getPrincipal_result auth_client_env =
     Inl (TypeError ''authClient.getPrincipal is not a function'')"
  by (simp_all add: auth_client_env_def example_env_def)

text \<open>
  When the client does give the principal and the agent is built, the two views are
  swapped before the root key is fetched: a fetch that throws leaves the application
  view shown, without proxies.
\<close>

lemma views_swapped_before_fetch:
  "getPrincipal_result env = Inr p \<Longrightarrow> getIdentity_result env = Inr () \<Longrightarrow>
   httpAgent_result env = Inr () \<Longrightarrow> dfx_network env \<noteq> ''ic'' \<Longrightarrow>
   fetchRootKey_result env = Inl e \<Longrightarrow>
   handleAuthenticated env s =
     (Inl e,
      s\<lparr>currentPrincipal := Some p,
        authSection_hidden := True,
        appContent_hidden := False,
        calls := calls s @ [FetchRootKey]\<rparr>)"
  by (simp add: handleAuthenticated_def prog_defs Let_def)

lemma stalled_page_reached:
  "window_onload
       (example_env\<lparr>isAuthenticated_at_load := Inr True,
                     fetchRootKey_result := Inl (Error ''fetch failed'')\<rparr>) example_page =
     (Inr (), stalled_page\<lparr>advicePrompt := [], docPrompt := []\<rparr>)"
  by (simp add: window_onload_def views_swapped_before_fetch prog_defs example_env_def
      example_page_def stalled_page_def)

text \<open>
  With a client that does have \<^verbatim>\<open>getPrincipal\<close>, and no failure, the start of a page
  that holds a session creates the backend proxy.
\<close>

lemma proxy_created_by_bootstrap:
  "actor (snd (window_onload (example_env\<lparr>isAuthenticated_at_load := Inr True\<rparr>)
       example_page)) =
     Some (Proxy ''http://127.0.0.1:4943'' ''backend'')"
  by (simp add: window_onload_def handleAuthenticated_def prog_defs loadUserProfile_run
      loadUserDocuments_run Let_def example_env_def)

text \<open>
  The number of root key fetches of \<open>handleAuthenticated\<close>: one when the network is not
  the production network and the statements before the fetch have not thrown, none
  otherwise.
\<close>

lemma handleAuthenticated_fetches:
  "count_list (calls (snd (handleAuthenticated env s))) FetchRootKey =
     count_list (calls s) FetchRootKey +
       (if dfx_network env = ''ic'' \<or> isl (getPrincipal_result env) \<or>
           isl (getIdentity_result env) \<or> isl (httpAgent_result env)
        then 0 else 1)"
proof (cases "getPrincipal_result env")
  case (Inl e)
  then show ?thesis
    by (simp add: handleAuthenticated_no_principal)
next
  case p: (Inr p)
  show ?thesis
  proof (cases "getIdentity_result env")
    case (Inl e)
    with p show ?thesis
      by (simp add: handleAuthenticated_def prog_defs Let_def)
  next
    case i: (Inr i)
    show ?thesis
    proof (cases "httpAgent_result env")
      case (Inl e)
      with p i show ?thesis
        by (simp add: handleAuthenticated_def prog_defs Let_def)
    next
      case h: (Inr h)
      from p i h show ?thesis
        by (cases "fetchRootKey_result env";
            cases "createActor_result env (backend_canister_id env)";
            cases "createActor_result env (internet_identity_canister_id env)")
           (simp_all add: handleAuthenticated_def prog_defs loadUserProfile_run
              loadUserDocuments_run Let_def)
    qed
  qed
qed

text \<open>
  C5. During bootstrap the root verification key of the network is fetched if and only
  if the configured network is not the production network. The test of the network
  (lines 66 to 68) is as the claim says, but it stands behind the call
  \<^verbatim>\<open>authClient.getPrincipal()\<close> of line 56: with the client of the library, which has no
  such member, on a local network, \<open>handleAuthenticated\<close> throws before the test, and
  neither the start of the page with a session nor a click on the login button
  fetches the key.
\<close>

theorem root_key_not_fetched_on_local_network:
  "dfx_network auth_client_env = ''local'' \<and>
   handleAuthenticated auth_client_env example_page =
     (Inl (TypeError ''authClient.getPrincipal is not a function''), example_page) \<and>
   calls (snd (window_onload
       (auth_client_env\<lparr>isAuthenticated_at_load := Inr True\<rparr>) example_page)) =
     [AuthClientCreate, IsAuthenticated] \<and>
   calls (snd (loginButton_click auth_client_env waiting_page)) =
     [AuthClientCreate, IsAuthenticated,
      Login (Some ''https://identity.ic0.app''), IsAuthenticated]"
proof -
  have g: "getPrincipal_result auth_client_env =
      Inl (TypeError ''authClient.getPrincipal is not a function'')"
    "getPrincipal_result (auth_client_env\<lparr>isAuthenticated_at_load := Inr True\<rparr>) =
      Inl (TypeError ''authClient.getPrincipal is not a function'')"
    by (simp_all add: auth_client_env_facts)
  have page: "calls example_page = []" "loginButton_onclick waiting_page = Some InternetIdentity"
    "calls waiting_page = [AuthClientCreate, IsAuthenticated]"
    by (simp_all add: waiting_page_def example_page_def)
  have load: "calls (snd (window_onload
       (auth_client_env\<lparr>isAuthenticated_at_load := Inr True\<rparr>) example_page)) =
     [AuthClientCreate, IsAuthenticated]"
    by (simp add: window_onload_def handleAuthenticated_no_principal [OF g(2)] prog_defs
        auth_client_env_facts page)
  have click: "calls (snd (loginButton_click auth_client_env waiting_page)) =
     [AuthClientCreate, IsAuthenticated,
      Login (Some ''https://identity.ic0.app''), IsAuthenticated]"
    by (simp add: loginButton_click_def login_handler_def
        handleAuthenticated_no_principal [OF g(1)] prog_defs auth_client_env_facts page)
  show ?thesis
    by (simp add: auth_client_env_facts load click handleAuthenticated_no_principal [OF g(1)])
qed

text \<open>
  What is reported: a failure at the start of the page, inside the \<^verbatim>\<open>try\<close> of
  \<^verbatim>\<open>window.onload\<close>, such as a failure to create the client, or the missing
  \<^verbatim>\<open>getPrincipal\<close> when a session exists already. The notification is shown and the
  first view stays.
\<close>

lemma provider_failure_reported:
  "\<not> plug_present env \<Longrightarrow> authClient_create_result env = Inl e \<Longrightarrow>
   window_onload env s =
     (Inr (),
      s\<lparr>calls := calls s @ [AuthClientCreate],
        console := console s @ [(''Auth error:'', e)],
        alerts := alerts s @
          [(''Authentication failed. Try refreshing or install Plug Wallet.'', ''danger'')]\<rparr>)"
  by (simp add: window_onload_def prog_defs)

lemma load_time_failure_reported:
  "window_onload (auth_client_env\<lparr>isAuthenticated_at_load := Inr True\<rparr>) example_page =
     (Inr (),
      example_page
        \<lparr>calls := [AuthClientCreate, IsAuthenticated],
         console :=
           [(''Auth error:'', TypeError ''authClient.getPrincipal is not a function'')],
         alerts :=
           [(''Authentication failed. Try refreshing or install Plug Wallet.'',
             ''danger'')]\<rparr>)"
proof -
  have g: "getPrincipal_result (auth_client_env\<lparr>isAuthenticated_at_load := Inr True\<rparr>) =
      Inl (TypeError ''authClient.getPrincipal is not a function'')"
    by (simp add: auth_client_env_facts)
  have page: "calls example_page = []" "console example_page = []" "alerts example_page = []"
    by (simp_all add: example_page_def)
  show ?thesis
    by (simp add: window_onload_def handleAuthenticated_no_principal [OF g] prog_defs
        auth_client_env_facts page)
qed

text \<open>
  What is not: the handler of the login button shows no notification, whatever it
  does and whatever is thrown in it.
\<close>

lemma handleAuthenticated_alerts:
  "alerts (snd (handleAuthenticated env s)) = alerts s"
proof (cases "getPrincipal_result env")
  case (Inl e)
  then show ?thesis
    by (simp add: handleAuthenticated_no_principal)
next
  case p: (Inr p)
  show ?thesis
  proof (cases "getIdentity_result env")
    case (Inl e)
    with p show ?thesis
      by (simp add: handleAuthenticated_def prog_defs Let_def)
  next
    case i: (Inr i)
    show ?thesis
    proof (cases "httpAgent_result env")
      case (Inl e)
      with p i show ?thesis
        by (simp add: handleAuthenticated_def prog_defs Let_def)
    next
      case h: (Inr h)
      from p i h show ?thesis
        by (cases "fetchRootKey_result env";
            cases "createActor_result env (backend_canister_id env)";
            cases "createActor_result env (internet_identity_canister_id env)")
           (simp_all add: handleAuthenticated_def prog_defs loadUserProfile_run
              loadUserDocuments_run Let_def)
    qed
  qed
qed

lemma login_handler_alerts:
  "alerts (snd (login_handler p env s)) = alerts s"
proof (cases "login_result env")
  case (Inl e)
  then show ?thesis
    by (simp add: login_handler_def prog_defs)
next
  case l: (Inr u)
  show ?thesis
  proof (cases "isAuthenticated_after_login env")
    case (Inl e)
    with l show ?thesis
      by (simp add: login_handler_def prog_defs)
  next
    case (Inr authenticated)
    have "alerts (snd (handleAuthenticated env
        (s\<lparr>calls := calls s @ [Login (case p of Plug \<Rightarrow> None
                | InternetIdentity \<Rightarrow> Some ''https://identity.ic0.app''),
              IsAuthenticated]\<rparr>))) = alerts s"
      by (simp add: handleAuthenticated_alerts)
    with l Inr show ?thesis
      by (simp add: login_handler_def prog_defs)
  qed
qed

text \<open>
  C4. For every exception raised during bootstrap (provider detection, login, the
  fetch of the root key) an error notification is shown and the application stays in
  its state before authentication. In the code the handler of the login button runs
  after \<^verbatim>\<open>window.onload\<close> has returned, outside every \<^verbatim>\<open>try\<close>: on a page that found no
  session at its start, a click after which the client reports a session runs
  \<open>handleAuthenticated\<close>, the TypeError of line 56 leaves the handler unhandled, and
  no notification is shown.
\<close>

theorem login_click_failure_not_reported:
  "window_onload auth_client_env example_page = (Inr (), waiting_page) \<and>
   loginButton_onclick waiting_page = Some InternetIdentity \<and>
   loginButton_click auth_client_env waiting_page =
     (Inl (TypeError ''authClient.getPrincipal is not a function''),
      waiting_page
        \<lparr>calls := [AuthClientCreate, IsAuthenticated,
                   Login (Some ''https://identity.ic0.app''), IsAuthenticated]\<rparr>) \<and>
   alerts (snd (loginButton_click auth_client_env waiting_page)) = [] \<and>
   \<not> authSection_hidden (snd (loginButton_click auth_client_env waiting_page))"
proof -
  have g: "getPrincipal_result auth_client_env =
      Inl (TypeError ''authClient.getPrincipal is not a function'')"
    by (simp add: auth_client_env_facts)
  have load: "window_onload auth_client_env example_page = (Inr (), waiting_page)"
    by (simp add: window_onload_def prog_defs auth_client_env_facts
        example_page_def waiting_page_def)
  have page: "loginButton_onclick waiting_page = Some InternetIdentity"
    "alerts waiting_page = []" "\<not> authSection_hidden waiting_page"
    "calls waiting_page = [AuthClientCreate, IsAuthenticated]"
    by (simp_all add: waiting_page_def example_page_def)
  have click: "loginButton_click auth_client_env waiting_page =
     (Inl (TypeError ''authClient.getPrincipal is not a function''),
      waiting_page
        \<lparr>calls := [AuthClientCreate, IsAuthenticated,
                   Login (Some ''https://identity.ic0.app''), IsAuthenticated]\<rparr>)"
    by (simp add: loginButton_click_def login_handler_def
        handleAuthenticated_no_principal [OF g] prog_defs auth_client_env_facts page)
  show ?thesis
    by (simp add: load page click)
qed

end
